theory Spec2Isabelle
  imports Complex_Main "HOL-Library.Sublist"
begin

section \<open>The monitored Flask service (app/app.py)\<close>

text \<open>
  The program is one module: it creates a Flask application object, registers three
  views with \<^verbatim>\<open>@app.route\<close> (\<^verbatim>\<open>/health\<close>, \<^verbatim>\<open>/\<close>, \<^verbatim>\<open>/metrics\<close>) and starts the
  server. The three views are embedded below line by line. What they call
  (\<^verbatim>\<open>time.time\<close>, \<^verbatim>\<open>psutil.cpu_percent\<close>, \<^verbatim>\<open>psutil.virtual_memory\<close>, \<^verbatim>\<open>jsonify\<close>) and
  what calls them (Flask's routing and response construction) is library code; it is
  modelled in the sections marked \<^emph>\<open>library model\<close>, as far as the module uses it.

  Conventions.
  \<^item> A Python \<^verbatim>\<open>float\<close> is a \<^typ>\<open>real\<close>; rounding, infinities and NaN are outside the
    model. How Python prints a float (\<^verbatim>\<open>format(x, '')\<close> inside an f-string) is the
    field \<open>float_str\<close> of the environment.
  \<^item> A Python \<^verbatim>\<open>str\<close> is a \<^typ>\<open>string\<close> holding its UTF-8 bytes, which is what the
    response carries.
  \<^item> A raised exception is the \<open>Inl\<close> branch of a sum; every view returns
    \<open>(pyexn + rv) \<times> world\<close>: its result or exception, and the state it leaves.
\<close>

subsection \<open>Values\<close>

datatype pyexn = PyExn string

text \<open>The named tuple returned by \<^verbatim>\<open>psutil.virtual_memory()\<close>; the module reads
  its attribute \<^verbatim>\<open>percent\<close> only.\<close>

record svmem =
  percent :: real

datatype json = JStr string | JNum real | JObj "(string \<times> json) list"

datatype payload = Text string | JsonDoc json | ErrorPage | NoBody

type_synonym header_list = "(string \<times> string) list"

record response =
  status :: nat
  headers :: header_list
  body :: payload

text \<open>What a view may return to Flask: a string or a response object, alone, with a
  status, or with a status and a dictionary of headers.\<close>

datatype rv_base = RvStr string | RvResponse response

datatype rv = Rv rv_base | RvStatus rv_base nat | RvStatusHeaders rv_base nat header_list

text \<open>A request as the WSGI server hands it to the application: the method
  (\<^verbatim>\<open>REQUEST_METHOD\<close>) and the path of the request target (\<^verbatim>\<open>PATH_INFO\<close>:
  percent-decoded, without the query string).\<close>

record request =
  req_method :: string
  req_path :: string

datatype endpoint = Health | Home | Metrics | Static

text \<open>The URL of a rule: a fixed string, or a fixed prefix followed by one variable of
  Werkzeug's \<^verbatim>\<open>path\<close> converter (\<open>PathArg ''/static/''\<close> is
  \<^verbatim>\<open>/static/<path:filename>\<close>).\<close>

datatype pattern = Fixed string | PathArg string

record rule =
  rule_pattern :: pattern
  rule_methods :: "string list"
  rule_endpoint :: endpoint

subsection \<open>State and environment\<close>

text \<open>
  The state threaded through every call: the wall clock (seconds since the epoch) and
  the one module-level object of the program, \<^verbatim>\<open>app\<close>, as its table of URL rules.
  The module has no other global.
\<close>

record world =
  clock :: real
  url_map :: "rule list"

text \<open>
  The environment is what the operating system and the Python runtime answer:
  \<open>cpu_at t\<close> is the outcome of a CPU sampling window that ends at time \<open>t\<close>,
  \<open>mem_at t\<close> the outcome of reading the memory counters at time \<open>t\<close> (either may be an
  exception), \<open>float_str\<close> the text Python prints for a float, \<open>static_file f\<close> the
  response that sends the file \<open>f\<close> of the application's static folder, if there is such
  a file (the repository has no static folder).
\<close>

record env =
  cpu_at :: "real \<Rightarrow> pyexn + real"
  mem_at :: "real \<Rightarrow> pyexn + svmem"
  float_str :: "real \<Rightarrow> string"
  static_file :: "string \<Rightarrow> response option"

subsection \<open>Library model: time and psutil\<close>

definition time_time :: "world \<Rightarrow> real \<times> world" where
  "time_time w = (clock w, w)"

definition time_sleep :: "real \<Rightarrow> world \<Rightarrow> world" where
  "time_sleep secs w = w\<lparr>clock := clock w + secs\<rparr>"

text \<open>\<^verbatim>\<open>psutil.cpu_percent(interval)\<close> with a positive interval compares the CPU
  times before and after sleeping for the interval: it blocks for the window, then
  returns the percentage or raises.\<close>

definition psutil_cpu_percent :: "env \<Rightarrow> real \<Rightarrow> world \<Rightarrow> (pyexn + real) \<times> world" where
  "psutil_cpu_percent os interval w =
     (let w1 = time_sleep interval w in (cpu_at os (clock w1), w1))"

definition psutil_virtual_memory :: "env \<Rightarrow> world \<Rightarrow> (pyexn + svmem) \<times> world" where
  "psutil_virtual_memory os w = (mem_at os (clock w), w)"

subsection \<open>Library model: Flask responses\<close>

definition content_type :: string where
  "content_type = ''Content-Type''"

text \<open>\<^verbatim>\<open>jsonify(dict)\<close>: a response with the dictionary as JSON document.\<close>

definition jsonify :: "(string \<times> json) list \<Rightarrow> response" where
  "jsonify d = \<lparr>status = 200, headers = [(content_type, ''application/json'')],
                body = JsonDoc (JObj d)\<rparr>"

text \<open>\<^verbatim>\<open>Headers.set\<close>: the first entry under the key is replaced, later ones removed.\<close>

fun set_header :: "string \<Rightarrow> string \<Rightarrow> header_list \<Rightarrow> header_list" where
  "set_header k v [] = [(k, v)]"
| "set_header k v ((k', v') # hs) =
     (if k' = k then (k, v) # filter (\<lambda>h. fst h \<noteq> k) hs
      else (k', v') # set_header k v hs)"

fun extend_headers :: "header_list \<Rightarrow> header_list \<Rightarrow> header_list" where
  "extend_headers hs [] = hs"
| "extend_headers hs ((k, v) # new) = extend_headers (set_header k v hs) new"

fun get_header :: "string \<Rightarrow> header_list \<Rightarrow> string option" where
  "get_header k [] = None"
| "get_header k ((k', v) # hs) = (if k' = k then Some v else get_header k hs)"

text \<open>\<^verbatim>\<open>Flask.make_response\<close>: a string becomes a 200 response of Flask's default
  type \<^verbatim>\<open>text/html\<close>; a status and headers given beside it override the defaults.\<close>

fun make_base :: "rv_base \<Rightarrow> response" where
  "make_base (RvStr s) =
     \<lparr>status = 200, headers = [(content_type, ''text/html; charset=utf-8'')], body = Text s\<rparr>"
| "make_base (RvResponse r) = r"

fun make_response :: "rv \<Rightarrow> response" where
  "make_response (Rv b) = make_base b"
| "make_response (RvStatus b st) = (make_base b)\<lparr>status := st\<rparr>"
| "make_response (RvStatusHeaders b st hs) =
     (let r = make_base b in r\<lparr>status := st, headers := extend_headers (headers r) hs\<rparr>)"

text \<open>The response of an aborted request (404, 405, 500): Werkzeug's HTML error
  document, whose text is not modelled.\<close>

definition error_response :: "nat \<Rightarrow> response" where
  "error_response code =
     \<lparr>status = code, headers = [(content_type, ''text/html; charset=utf-8'')], body = ErrorPage\<rparr>"

definition default_options_response :: response where
  "default_options_response =
     \<lparr>status = 200, headers = [(content_type, ''text/html; charset=utf-8'')], body = NoBody\<rparr>"

subsection \<open>The views\<close>

text \<open>
  \<^verbatim>\<open>
  @app.route('/health')
  def health():
      return jsonify({
          "status": "healthy",
          "timestamp": time.time()
      }), 200
  \<close>
\<close>

definition health :: "world \<Rightarrow> (pyexn + rv) \<times> world" where
  "health w =
     (case time_time w of (t, w1) \<Rightarrow>
        (Inr (RvStatus (RvResponse (jsonify [(''status'', JStr ''healthy''), (''timestamp'', JNum t)])) 200),
         w1))"

text \<open>
  \<^verbatim>\<open>
  @app.route('/')
  def home():
      return "Hello! I'm a simple monitored service! <U+1F44B>"
  \<close>
  The last character of the literal is the code point U+1F44B, in UTF-8 the four bytes
  F0 9F 91 8B.
\<close>

definition greeting :: string where
  "greeting = ''Hello! I'm a simple monitored service! '' @ [CHR 0xF0, CHR 0x9F, CHR 0x91, CHR 0x8B]"

definition home :: "world \<Rightarrow> (pyexn + rv) \<times> world" where
  "home w = (Inr (Rv (RvStr greeting)), w)"

text \<open>
  \<^verbatim>\<open>
  @app.route('/metrics')
  def metrics():
      cpu_percent = psutil.cpu_percent(interval=1)
      memory = psutil.virtual_memory()
      metrics_output = f"""# HELP cpu_usage_percent Current CPU usage
  # TYPE cpu_usage_percent gauge
  cpu_usage_percent {cpu_percent}

  # HELP memory_usage_percent Current memory usage
  # TYPE memory_usage_percent gauge
  memory_usage_percent {memory.percent}

  # HELP app_up Application is running
  # TYPE app_up gauge
  app_up 1
  """
      return metrics_output, 200, {'Content-Type': 'text/plain'}
  \<close>
  The f-string is \<open>metrics_output\<close>; there is no \<^verbatim>\<open>try\<close> around the two sampler
  calls, so an exception of either leaves the view at once.
\<close>

definition nl :: char where
  "nl = CHR 0x0A"

definition metrics_output :: "env \<Rightarrow> real \<Rightarrow> svmem \<Rightarrow> string" where
  "metrics_output os cpu_percent memory =
     ''# HELP cpu_usage_percent Current CPU usage'' @ nl #
     ''# TYPE cpu_usage_percent gauge'' @ nl #
     ''cpu_usage_percent '' @ float_str os cpu_percent @ nl #
     nl #
     ''# HELP memory_usage_percent Current memory usage'' @ nl #
     ''# TYPE memory_usage_percent gauge'' @ nl #
     ''memory_usage_percent '' @ float_str os (percent memory) @ nl #
     nl #
     ''# HELP app_up Application is running'' @ nl #
     ''# TYPE app_up gauge'' @ nl #
     ''app_up 1'' @ [nl]"

definition metrics :: "env \<Rightarrow> world \<Rightarrow> (pyexn + rv) \<times> world" where
  "metrics os w =
     (case psutil_cpu_percent os 1 w of
        (Inl e, w1) \<Rightarrow> (Inl e, w1)
      | (Inr cpu_percent, w1) \<Rightarrow>
          (case psutil_virtual_memory os w1 of
             (Inl e, w2) \<Rightarrow> (Inl e, w2)
           | (Inr memory, w2) \<Rightarrow>
               (Inr (RvStatusHeaders (RvStr (metrics_output os cpu_percent memory)) 200
                       [(''Content-Type'', ''text/plain'')]),
                w2)))"

subsection \<open>Library model: routing and dispatch\<close>

text \<open>
  \<^verbatim>\<open>Flask(__name__)\<close> registers by itself the rule \<^verbatim>\<open>/static/<path:filename>\<close> for
  the view that sends the files of the static folder, whether the folder exists or
  not. \<^verbatim>\<open>@app.route(path)\<close> without options appends a rule for the path. Flask's
  default for \<^verbatim>\<open>methods\<close> is GET; it adds HEAD to every rule that accepts GET, and
  OPTIONS to every rule (automatic options).
\<close>

definition flask_init :: "rule list" where
  "flask_init =
     [\<lparr>rule_pattern = PathArg ''/static/'', rule_methods = [''GET'', ''HEAD'', ''OPTIONS''],
       rule_endpoint = Static\<rparr>]"

definition route :: "string \<Rightarrow> endpoint \<Rightarrow> rule list \<Rightarrow> rule list" where
  "route p e m =
     m @ [\<lparr>rule_pattern = Fixed p, rule_methods = [''GET'', ''HEAD'', ''OPTIONS''],
           rule_endpoint = e\<rparr>]"

text \<open>The rules of \<^verbatim>\<open>app\<close> once the module is imported: the static rule of line 5,
  then the rules of the three decorators in their order.\<close>

definition app :: "rule list" where
  "app = route ''/metrics'' Metrics (route ''/'' Home (route ''/health'' Health flask_init))"

definition boot :: "real \<Rightarrow> world" where
  "boot t = \<lparr>clock = t, url_map = app\<rparr>"

text \<open>
  What of a request is matched. The method is compared in upper case
  (\<^verbatim>\<open>REQUEST_METHOD.upper()\<close>; ASCII letters here). Of the path, Werkzeug strips the
  leading slashes and puts one slash in front; an empty path stays empty.
\<close>

definition to_upper :: "char \<Rightarrow> char" where
  "to_upper c =
     (case map_of (zip ''abcdefghijklmnopqrstuvwxyz'' ''ABCDEFGHIJKLMNOPQRSTUVWXYZ'') c of
        Some u \<Rightarrow> u
      | None \<Rightarrow> c)"

definition request_method :: "request \<Rightarrow> string" where
  "request_method req = map to_upper (req_method req)"

definition path_part :: "string \<Rightarrow> string" where
  "path_part p = (if p = [] then [] else CHR ''/'' # dropWhile (\<lambda>c. c = CHR ''/'') p)"

text \<open>
  A fixed rule matches the path equal to it. A rule with a \<^verbatim>\<open>path\<close> variable matches
  its prefix followed by a non-empty rest that does not begin with a slash; the rest
  is the argument of the view.
\<close>

fun strip_prefix :: "string \<Rightarrow> string \<Rightarrow> string option" where
  "strip_prefix [] p = Some p"
| "strip_prefix (c # cs) [] = None"
| "strip_prefix (c # cs) (d # ds) = (if c = d then strip_prefix cs ds else None)"

fun pattern_match :: "pattern \<Rightarrow> string \<Rightarrow> string option" where
  "pattern_match (Fixed s) p = (if p = s then Some [] else None)"
| "pattern_match (PathArg pre) p =
     (case strip_prefix pre p of
        None \<Rightarrow> None
      | Some a \<Rightarrow> (if a \<noteq> [] \<and> hd a \<noteq> CHR ''/'' then Some a else None))"

text \<open>
  One pass over the rules: the first rule that matches path and method, with the
  argument; a rule that matches the path but not the method adds its methods to
  \<open>have\<close>, which is the result when no rule matches both.
\<close>

fun url_match :: "rule list \<Rightarrow> string list \<Rightarrow> string \<Rightarrow> string \<Rightarrow> string list + rule \<times> string" where
  "url_match [] have m p = Inl have"
| "url_match (r # rs) have m p =
     (case pattern_match (rule_pattern r) p of
        None \<Rightarrow> url_match rs have m p
      | Some a \<Rightarrow>
          (if m \<in> set (rule_methods r) then Inr (r, a)
           else url_match rs (have @ rule_methods r) m p))"

text \<open>Strict slashes: a path that lacks the trailing slash of a fixed rule is
  redirected to the rule's URL (here only the empty path, to \<^verbatim>\<open>/\<close>).\<close>

definition slash_required :: "rule list \<Rightarrow> string \<Rightarrow> string \<Rightarrow> bool" where
  "slash_required rules m p =
     list_ex (\<lambda>r. rule_pattern r = Fixed (p @ ''/'') \<and> m \<in> set (rule_methods r)) rules"

text \<open>Werkzeug's \<^verbatim>\<open>re.sub("/{2,}?", "/", path)\<close>: from left to right, each pair of
  slashes becomes one slash.\<close>

fun merge_slashes :: "string \<Rightarrow> string" where
  "merge_slashes (a # b # cs) =
     (if a = CHR ''/'' \<and> b = CHR ''/'' then CHR ''/'' # merge_slashes cs
      else a # merge_slashes (b # cs))"
| "merge_slashes cs = cs"

text \<open>
  Matching a request. When no rule matches path and method, the path is tried once
  more with its slashes merged: a match then is a redirect to the merged path.
  Otherwise the request is aborted, with 405 if some rule matched the path and with
  404 if none did.
\<close>

datatype routing =
  NotFound | MethodNotAllowed "string list" | RequestRedirect string | Matched rule string

definition match_request :: "rule list \<Rightarrow> request \<Rightarrow> routing" where
  "match_request rules req =
     (let m = request_method req; p = path_part (req_path req) in
      case url_match rules [] m p of
        Inr (r, a) \<Rightarrow> Matched r a
      | Inl have \<Rightarrow>
          (if slash_required rules m p then RequestRedirect (p @ ''/'')
           else
             (case url_match rules have m (merge_slashes p) of
                Inr (r, a) \<Rightarrow> RequestRedirect (merge_slashes p)
              | Inl have' \<Rightarrow>
                  (if slash_required rules m (merge_slashes p)
                   then RequestRedirect (merge_slashes p @ ''/'')
                   else if have' = [] then NotFound
                   else MethodNotAllowed have'))))"

text \<open>What Flask does with a request once it is matched: abort with a status,
  redirect, answer an OPTIONS request by itself, or call the view of the rule with the
  argument taken from the path.\<close>

datatype action = Abort nat | Redirect string | AutomaticOptions | CallView endpoint

definition dispatch_action :: "request \<Rightarrow> world \<Rightarrow> action" where
  "dispatch_action req w =
     (case match_request (url_map w) req of
        NotFound \<Rightarrow> Abort 404
      | MethodNotAllowed allowed \<Rightarrow> Abort 405
      | RequestRedirect loc \<Rightarrow> Redirect loc
      | Matched r a \<Rightarrow>
          (if request_method req = ''OPTIONS'' then AutomaticOptions
           else CallView (rule_endpoint r)))"

definition view_args :: "request \<Rightarrow> world \<Rightarrow> string" where
  "view_args req w =
     (case match_request (url_map w) req of Matched r a \<Rightarrow> a | _ \<Rightarrow> [])"

text \<open>\<^verbatim>\<open>Flask.send_static_file\<close>: the file of the static folder under the name, or
  \<^verbatim>\<open>NotFound\<close>. Raising an HTTP exception in a view is answered with the response of
  that exception; the model returns this response.\<close>

definition send_static_file :: "env \<Rightarrow> string \<Rightarrow> world \<Rightarrow> (pyexn + rv) \<times> world" where
  "send_static_file os filename w =
     (case static_file os filename of
        None \<Rightarrow> (Inr (Rv (RvResponse (error_response 404))), w)
      | Some r \<Rightarrow> (Inr (Rv (RvResponse r)), w))"

definition view_functions :: "env \<Rightarrow> endpoint \<Rightarrow> string \<Rightarrow> world \<Rightarrow> (pyexn + rv) \<times> world" where
  "view_functions os e arg =
     (case e of Health \<Rightarrow> health | Home \<Rightarrow> home | Metrics \<Rightarrow> metrics os
      | Static \<Rightarrow> send_static_file os arg)"

text \<open>A HEAD request runs the view of GET and is answered without the body.\<close>

definition finalize :: "request \<Rightarrow> response \<Rightarrow> response" where
  "finalize req r = (if request_method req = ''HEAD'' then r\<lparr>body := NoBody\<rparr> else r)"

definition redirect_response :: "string \<Rightarrow> response" where
  "redirect_response loc =
     \<lparr>status = 308, headers = [(content_type, ''text/html; charset=utf-8''), (''Location'', loc)],
      body = ErrorPage\<rparr>"

text \<open>
  One request from arrival to response. The server is started by
  \<^verbatim>\<open>app.run(host='0.0.0.0', port=8080)\<close>, without debug mode, so an exception that
  leaves a view is turned into a 500 response.
\<close>

definition wsgi_app :: "env \<Rightarrow> request \<Rightarrow> world \<Rightarrow> response \<times> world" where
  "wsgi_app os req w =
     (case dispatch_action req w of
        Abort code \<Rightarrow> (error_response code, w)
      | Redirect loc \<Rightarrow> (redirect_response loc, w)
      | AutomaticOptions \<Rightarrow> (default_options_response, w)
      | CallView e \<Rightarrow>
          (case view_functions os e (view_args req w) w of
             (Inl exn, w1) \<Rightarrow> (error_response 500, w1)
           | (Inr rv, w1) \<Rightarrow> (finalize req (make_response rv), w1)))"

text \<open>Requests served one after another; before each, \<open>gap\<close> seconds pass.\<close>

fun serve :: "env \<Rightarrow> (real \<times> request) list \<Rightarrow> world \<Rightarrow> response list \<times> world" where
  "serve os [] w = ([], w)"
| "serve os ((gap, req) # rest) w =
     (case wsgi_app os req (time_sleep gap w) of (r, w1) \<Rightarrow>
        (case serve os rest w1 of (rs, w2) \<Rightarrow> (r # rs, w2)))"

definition GET :: "string \<Rightarrow> request" where
  "GET p = \<lparr>req_method = ''GET'', req_path = p\<rparr>"

subsection \<open>Reading the exposition text\<close>

text \<open>
  The body of \<^verbatim>\<open>/metrics\<close> is read the way a scraper reads it: split at line feeds,
  each line classified as a \<^verbatim>\<open># HELP\<close> line, a \<^verbatim>\<open># TYPE\<close> line, another comment,
  a blank line, or a sample \<^verbatim>\<open>name value\<close>.
\<close>

fun split_lines :: "string \<Rightarrow> string list" where
  "split_lines [] = [[]]"
| "split_lines (c # cs) =
     (if c = nl then [] # split_lines cs
      else (case split_lines cs of l # ls \<Rightarrow> (c # l) # ls | [] \<Rightarrow> [[c]]))"

datatype expo_line =
  Help string string | Type string string | Comment string | Sample string string | Blank

definition word1 :: "string \<Rightarrow> string" where
  "word1 s = takeWhile (\<lambda>c. c \<noteq> CHR '' '') s"

definition rest1 :: "string \<Rightarrow> string" where
  "rest1 s = drop 1 (dropWhile (\<lambda>c. c \<noteq> CHR '' '') s)"

definition parse_line :: "string \<Rightarrow> expo_line" where
  "parse_line l =
     (if l = [] then Blank
      else if take 7 l = ''# HELP '' then Help (word1 (drop 7 l)) (rest1 (drop 7 l))
      else if take 7 l = ''# TYPE '' then Type (word1 (drop 7 l)) (rest1 (drop 7 l))
      else if hd l = CHR ''#'' then Comment l
      else Sample (word1 l) (rest1 l))"

definition exposition :: "string \<Rightarrow> expo_line list" where
  "exposition b = map parse_line (split_lines b)"

text \<open>The metric families a body declares, in order, and the values on the sample
  lines of one metric.\<close>

fun families :: "expo_line list \<Rightarrow> (string \<times> string) list" where
  "families [] = []"
| "families (Type n k # ls) = (n, k) # families ls"
| "families (_ # ls) = families ls"

fun samples :: "string \<Rightarrow> expo_line list \<Rightarrow> string list" where
  "samples n [] = []"
| "samples n (Sample n' v # ls) = (if n' = n then v # samples n ls else samples n ls)"
| "samples n (_ # ls) = samples n ls"

text \<open>A sample environment for closed instances: CPU at 12.5 percent, memory at 40
  percent, printed as Python prints them.\<close>

definition env0 :: env where
  "env0 = \<lparr>cpu_at = (\<lambda>t. Inr (25 / 2)), mem_at = (\<lambda>t. Inr \<lparr>percent = 40\<rparr>),
           float_str = (\<lambda>x. if x = 25 / 2 then ''12.5'' else ''40.0''),
           static_file = (\<lambda>f. None)\<rparr>"

text \<open>An environment whose CPU counters cannot be read.\<close>

definition env_fail :: env where
  "env_fail = \<lparr>cpu_at = (\<lambda>t. Inl (PyExn ''PermissionError'')), mem_at = (\<lambda>t. Inr \<lparr>percent = 40\<rparr>),
               float_str = (\<lambda>x. ''40.0''), static_file = (\<lambda>f. None)\<rparr>"



section \<open>Properties\<close>

subsection \<open>Auxiliary facts\<close>

lemma to_upper_simps:
  "to_upper CHR ''G'' = CHR ''G''" "to_upper CHR ''E'' = CHR ''E''" "to_upper CHR ''T'' = CHR ''T''"
  "to_upper CHR ''H'' = CHR ''H''" "to_upper CHR ''A'' = CHR ''A''" "to_upper CHR ''D'' = CHR ''D''"
  "to_upper CHR ''P'' = CHR ''P''" "to_upper CHR ''O'' = CHR ''O''" "to_upper CHR ''S'' = CHR ''S''"
  "to_upper CHR ''g'' = CHR ''G''" "to_upper CHR ''e'' = CHR ''E''" "to_upper CHR ''t'' = CHR ''T''"
  by (simp_all add: to_upper_def)

lemma req_GET: "request_method (GET p) = ''GET''" "req_path (GET p) = p"
  by (simp_all add: GET_def request_method_def to_upper_simps)

lemmas route_defs = boot_def app_def route_def flask_init_def dispatch_action_def view_args_def
  match_request_def req_GET path_part_def

lemma world_eq_boot: "url_map w = app \<Longrightarrow> w = boot (clock w)"
  by (simp add: boot_def)

lemma dispatch_health: "dispatch_action (GET ''/health'') (boot t) = CallView Health"
  by (simp add: route_defs)

lemma dispatch_home: "dispatch_action (GET ''/'') (boot t) = CallView Home"
  by (simp add: route_defs)

lemma dispatch_metrics: "dispatch_action (GET ''/metrics'') (boot t) = CallView Metrics"
  by (simp add: route_defs)

lemma split_lines_line:
  "nl \<notin> set s \<Longrightarrow> split_lines (s @ nl # rest) = s # split_lines rest"
  by (induction s) auto

lemma metrics_ok:
  assumes "psutil_cpu_percent os 1 w = (Inr c, w1)"
      and "psutil_virtual_memory os w1 = (Inr m, w2)"
  shows "metrics os w =
     (Inr (RvStatusHeaders (RvStr (metrics_output os c m)) 200 [(''Content-Type'', ''text/plain'')]), w2)"
  using assms by (simp add: metrics_def)

lemma wsgi_metrics_ok:
  assumes "psutil_cpu_percent os 1 (boot t) = (Inr c, w1)"
      and "psutil_virtual_memory os w1 = (Inr m, w2)"
  shows "wsgi_app os (GET ''/metrics'') (boot t) =
     (\<lparr>status = 200, headers = [(''Content-Type'', ''text/plain'')],
       body = Text (metrics_output os c m)\<rparr>, w2)"
  using metrics_ok[OF assms]
  by (simp add: wsgi_app_def dispatch_metrics view_functions_def finalize_def req_GET content_type_def)

lemma split_lines_value:
  "CHR 0x0A \<notin> set s \<Longrightarrow> split_lines (s @ CHR 0x0A # rest) = s # split_lines rest"
  using split_lines_line[of s rest] by (simp add: nl_def)

lemma split_lines_metrics_output:
  assumes "nl \<notin> set (float_str os c)" and "nl \<notin> set (float_str os (percent m))"
  shows "split_lines (metrics_output os c m) =
     [''# HELP cpu_usage_percent Current CPU usage'',
      ''# TYPE cpu_usage_percent gauge'',
      ''cpu_usage_percent '' @ float_str os c,
      [],
      ''# HELP memory_usage_percent Current memory usage'',
      ''# TYPE memory_usage_percent gauge'',
      ''memory_usage_percent '' @ float_str os (percent m),
      [],
      ''# HELP app_up Application is running'',
      ''# TYPE app_up gauge'',
      ''app_up 1'',
      []]"
  using assms by (simp add: metrics_output_def nl_def split_lines_value)

lemma exposition_metrics_output:
  assumes "nl \<notin> set (float_str os c)" and "nl \<notin> set (float_str os (percent m))"
  shows "exposition (metrics_output os c m) =
     [Help ''cpu_usage_percent'' ''Current CPU usage'',
      Type ''cpu_usage_percent'' ''gauge'',
      Sample ''cpu_usage_percent'' (float_str os c),
      Blank,
      Help ''memory_usage_percent'' ''Current memory usage'',
      Type ''memory_usage_percent'' ''gauge'',
      Sample ''memory_usage_percent'' (float_str os (percent m)),
      Blank,
      Help ''app_up'' ''Application is running'',
      Type ''app_up'' ''gauge'',
      Sample ''app_up'' ''1'',
      Blank]"
  unfolding exposition_def split_lines_metrics_output[OF assms]
  by (simp add: parse_line_def word1_def rest1_def)

lemma sleep_boot: "time_sleep d (boot t) = boot (t + d)"
  by (simp add: time_sleep_def boot_def)

lemma boot_sel: "clock (boot t) = t" "url_map (boot t) = app"
  by (simp_all add: boot_def)

declare boot_sel [simp]

lemma wsgi_metrics_cases:
  "wsgi_app os (GET ''/metrics'') (boot t) =
     (case cpu_at os (t + 1) of
        Inl e \<Rightarrow> (error_response 500, boot (t + 1))
      | Inr c \<Rightarrow>
          (case mem_at os (t + 1) of
             Inl e \<Rightarrow> (error_response 500, boot (t + 1))
           | Inr m \<Rightarrow>
               (\<lparr>status = 200, headers = [(''Content-Type'', ''text/plain'')],
                 body = Text (metrics_output os c m)\<rparr>, boot (t + 1))))"
  by (simp add: wsgi_app_def dispatch_metrics view_functions_def metrics_def
      psutil_cpu_percent_def psutil_virtual_memory_def sleep_boot finalize_def req_GET
      content_type_def split: sum.splits)

lemma frame_metrics: "url_map (snd (metrics os w)) = url_map w"
  by (simp add: metrics_def psutil_cpu_percent_def psutil_virtual_memory_def time_sleep_def
      split: sum.splits)

lemma frame_health: "snd (health w) = w"
  by (simp add: health_def time_time_def)

lemma frame_home: "snd (home w) = w"
  by (simp add: home_def)

lemma frame_static: "snd (send_static_file os f w) = w"
  by (simp add: send_static_file_def split: option.splits)

lemma frame_view: "url_map (snd (view_functions os e a w)) = url_map w"
  by (cases e) (simp_all add: view_functions_def frame_metrics frame_health frame_home frame_static)

lemma frame_wsgi: "url_map (snd (wsgi_app os req w)) = url_map w"
proof (cases "dispatch_action req w")
  case (CallView e)
  obtain x w1 where v: "view_functions os e (view_args req w) w = (x, w1)"
    by (cases "view_functions os e (view_args req w) w")
  with frame_view[of os e "view_args req w" w] have "url_map w1 = url_map w" by simp
  with CallView v show ?thesis by (cases x) (simp_all add: wsgi_app_def)
qed (simp_all add: wsgi_app_def)

lemma frame_serve: "url_map (snd (serve os reqs w)) = url_map w"
proof (induction reqs arbitrary: w)
  case Nil
  show ?case by simp
next
  case (Cons a reqs)
  obtain gap req where a: "a = (gap, req)" by (cases a)
  obtain r w1 where s1: "wsgi_app os req (time_sleep gap w) = (r, w1)"
    by (cases "wsgi_app os req (time_sleep gap w)")
  obtain rs w2 where s2: "serve os reqs w1 = (rs, w2)" by (cases "serve os reqs w1")
  have "url_map w1 = url_map w"
    using frame_wsgi[of os req "time_sleep gap w"] s1 by (simp add: time_sleep_def)
  moreover have "url_map w2 = url_map w1" using Cons.IH[of w1] s2 by simp
  ultimately show ?case using a s1 s2 by simp
qed

lemma serve_nth:
  "serve os reqs w = (rs, w') \<Longrightarrow> url_map w = app \<Longrightarrow> i < length reqs \<Longrightarrow>
     \<exists>t. rs ! i = fst (wsgi_app os (snd (reqs ! i)) (boot t))"
proof (induction reqs arbitrary: w rs i w')
  case Nil
  then show ?case by simp
next
  case (Cons a reqs)
  obtain gap req where a: "a = (gap, req)" by (cases a)
  obtain r w1 where s1: "wsgi_app os req (time_sleep gap w) = (r, w1)"
    by (cases "wsgi_app os req (time_sleep gap w)")
  obtain rs1 w2 where s2: "serve os reqs w1 = (rs1, w2)" by (cases "serve os reqs w1")
  have rs: "rs = r # rs1" using Cons.prems(1) a s1 s2 by simp
  have m0: "url_map (time_sleep gap w) = app" using Cons.prems(2) by (simp add: time_sleep_def)
  have m1: "url_map w1 = app" using frame_wsgi[of os req "time_sleep gap w"] s1 m0 by simp
  show ?case
  proof (cases i)
    case 0
    have "time_sleep gap w = boot (clock (time_sleep gap w))" using m0 by (rule world_eq_boot)
    then have "r = fst (wsgi_app os req (boot (clock (time_sleep gap w))))" using s1 by simp
    then show ?thesis using 0 rs a by auto
  next
    case (Suc j)
    then have "j < length reqs" using Cons.prems(3) by simp
    from Cons.IH[OF s2 m1 this] show ?thesis using Suc rs by simp
  qed
qed

lemma env0_cpu: "psutil_cpu_percent env0 1 (boot 0) = (Inr (25 / 2), boot 1)"
  by (simp add: psutil_cpu_percent_def time_sleep_def env0_def boot_def)

lemma env0_mem: "psutil_virtual_memory env0 (boot 1) = (Inr \<lparr>percent = 40\<rparr>, boot 1)"
  by (simp add: psutil_virtual_memory_def env0_def)

lemma env0_str: "nl \<notin> set (float_str env0 x)"
  by (simp add: env0_def nl_def)

lemma metrics_200_body:
  assumes "status (fst (wsgi_app os (GET ''/metrics'') (boot t))) = 200"
  shows "\<exists>c m. body (fst (wsgi_app os (GET ''/metrics'') (boot t))) = Text (metrics_output os c m)"
  using assms unfolding wsgi_metrics_cases
  by (auto simp: error_response_def split: sum.splits)

lemma serve_two:
  "serve env0 [(0, GET ''/metrics''), (5, GET ''/metrics'')] (boot 0) =
     ([\<lparr>status = 200, headers = [(''Content-Type'', ''text/plain'')],
        body = Text (metrics_output env0 (25 / 2) \<lparr>percent = 40\<rparr>)\<rparr>,
       \<lparr>status = 200, headers = [(''Content-Type'', ''text/plain'')],
        body = Text (metrics_output env0 (25 / 2) \<lparr>percent = 40\<rparr>)\<rparr>], boot 7)"
  by (simp add: sleep_boot wsgi_metrics_cases env0_def)

lemma merge_cons_other: "c \<noteq> CHR ''/'' \<Longrightarrow> merge_slashes (c # cs) = c # merge_slashes cs"
  by (cases cs) simp_all

lemma merge_eq_Nil: "merge_slashes xs = [] \<Longrightarrow> xs = []"
  by (cases xs rule: merge_slashes.cases) (simp_all split: if_splits)

lemma merge_hd_slash: "merge_slashes xs = CHR ''/'' # ys \<Longrightarrow> \<exists>zs. xs = CHR ''/'' # zs"
  by (cases xs rule: merge_slashes.cases) (simp_all split: if_splits)

lemma merge_cons_inv:
  "merge_slashes xs = c # ys \<Longrightarrow> c \<noteq> CHR ''/'' \<Longrightarrow> \<exists>zs. xs = c # zs \<and> merge_slashes zs = ys"
  by (cases xs rule: merge_slashes.cases) (auto split: if_splits)

lemma merge_prefix_inv:
  "CHR ''/'' \<notin> set s \<Longrightarrow> merge_slashes xs = s @ ys \<Longrightarrow> \<exists>zs. xs = s @ zs \<and> merge_slashes zs = ys"
proof (induction s arbitrary: xs)
  case Nil
  then show ?case by simp
next
  case (Cons c s)
  from Cons.prems have c: "c \<noteq> CHR ''/''" and s: "CHR ''/'' \<notin> set s" by auto
  from Cons.prems(2) have "merge_slashes xs = c # (s @ ys)" by simp
  from merge_cons_inv[OF this c] obtain zs where z: "xs = c # zs" "merge_slashes zs = s @ ys"
    by blast
  from Cons.IH[OF s z(2)] z(1) show ?case by auto
qed

lemma merge_word:
  assumes "CHR ''/'' \<notin> set s" and "merge_slashes xs = s"
  shows "xs = s"
proof -
  from assms(2) have "merge_slashes xs = s @ []" by simp
  from merge_prefix_inv[OF assms(1) this] obtain zs
    where z: "xs = s @ zs" "merge_slashes zs = []" by blast
  from z(2) have "zs = []" by (rule merge_eq_Nil)
  with z(1) show ?thesis by simp
qed

lemma strip_prefix_Some: "strip_prefix pre x = Some a \<Longrightarrow> x = pre @ a"
  by (induction pre x rule: strip_prefix.induct) (auto split: if_splits)

lemma strip_prefix_append: "strip_prefix pre (pre @ a) = Some a"
  by (induction pre) simp_all

lemma url_match_none:
  assumes "x \<notin> {''/health'', ''/'', ''/metrics''}" and "\<not> prefix ''/static/'' x"
  shows "url_match app have ''GET'' x = Inl have"
proof -
  have "strip_prefix ''/static/'' x = None"
  proof (cases "strip_prefix ''/static/'' x")
    case (Some a)
    then have "x = ''/static/'' @ a" by (rule strip_prefix_Some)
    with assms(2) show ?thesis by simp
  qed simp
  with assms(1) show ?thesis by (auto simp: app_def route_def flask_init_def)
qed

lemma no_slash_required: "x \<noteq> [] \<Longrightarrow> \<not> slash_required app m x"
  by (auto simp: slash_required_def app_def route_def flask_init_def snoc_eq_iff_butlast)



lemma path_part_form:
  assumes "p \<noteq> []"
  shows "\<exists>r. path_part p = CHR ''/'' # r \<and> (r = [] \<or> hd r \<noteq> CHR ''/'')"
proof -
  have "dropWhile (\<lambda>c. c = CHR ''/'') p = [] \<or> hd (dropWhile (\<lambda>c. c = CHR ''/'') p) \<noteq> CHR ''/''"
    using hd_dropWhile[of "\<lambda>c. c = CHR ''/''" p] by blast
  with assms show ?thesis by (simp add: path_part_def)
qed



lemma merged_unknown:
  assumes "q = CHR ''/'' # r" and "r = [] \<or> hd r \<noteq> CHR ''/''"
      and "q \<notin> {''/health'', ''/'', ''/metrics''}" and "\<not> prefix ''/static/'' q"
  shows "merge_slashes q \<notin> {''/health'', ''/'', ''/metrics''} \<and> \<not> prefix ''/static/'' (merge_slashes q)"
proof -
  have q3: "q \<noteq> ''/health''" "q \<noteq> ''/''" "q \<noteq> ''/metrics''"
    using assms(3) by simp_all
  have rne: "r \<noteq> []" using q3(2) assms(1) by simp
  with assms(2) obtain c r' where r: "r = c # r'" "c \<noteq> CHR ''/''" by (cases r) simp_all
  have mq: "merge_slashes q = CHR ''/'' # merge_slashes r"
    unfolding assms(1) r(1) using r(2) by simp
  have a: "merge_slashes r \<noteq> ''health''"
  proof
    assume h: "merge_slashes r = ''health''"
    have "CHR ''/'' \<notin> set ''health''" by simp
    from merge_word[OF this h] have "r = ''health''" .
    with assms(1) q3(1) show False by simp
  qed
  have b: "merge_slashes r \<noteq> ''metrics''"
  proof
    assume h: "merge_slashes r = ''metrics''"
    have "CHR ''/'' \<notin> set ''metrics''" by simp
    from merge_word[OF this h] have "r = ''metrics''" .
    with assms(1) q3(3) show False by simp
  qed
  have c: "merge_slashes r \<noteq> []" using rne merge_eq_Nil by blast
  have d: "\<not> prefix ''/static/'' (merge_slashes q)"
  proof
    assume "prefix ''/static/'' (merge_slashes q)"
    then obtain ys where ys: "merge_slashes q = ''/static/'' @ ys" unfolding prefix_def by blast
    have "merge_slashes r = ''static'' @ (CHR ''/'' # ys)" using ys unfolding mq by simp
    moreover have "CHR ''/'' \<notin> set ''static''" by simp
    ultimately obtain zs where z: "r = ''static'' @ zs" "merge_slashes zs = CHR ''/'' # ys"
      using merge_prefix_inv by blast
    from merge_hd_slash[OF z(2)] obtain zs' where "zs = CHR ''/'' # zs'" by blast
    then have "q = ''/static/'' @ zs'" unfolding assms(1) z(1) by simp
    then have "prefix ''/static/'' q" by (rule prefixI)
    with assms(4) show False by (rule notE)
  qed
  have "merge_slashes q \<noteq> ''/health''" "merge_slashes q \<noteq> ''/''" "merge_slashes q \<noteq> ''/metrics''"
    unfolding mq using a b c by simp_all
  with d show ?thesis by simp
qed

lemma match_unknown:
  assumes "p \<noteq> []" and "path_part p \<notin> {''/health'', ''/'', ''/metrics''}"
      and "\<not> prefix ''/static/'' (path_part p)"
  shows "match_request app (GET p) = NotFound"
proof -
  from path_part_form[OF assms(1)] obtain r
    where q: "path_part p = CHR ''/'' # r" "r = [] \<or> hd r \<noteq> CHR ''/''" by blast
  from merged_unknown[OF q assms(2,3)]
  have m: "merge_slashes (path_part p) \<notin> {''/health'', ''/'', ''/metrics''}"
    "\<not> prefix ''/static/'' (merge_slashes (path_part p))" by simp_all
  have 1: "url_match app [] ''GET'' (path_part p) = Inl []"
    using assms(2,3) by (rule url_match_none)
  have 2: "url_match app [] ''GET'' (merge_slashes (path_part p)) = Inl []"
    using m by (rule url_match_none)
  have 3: "\<not> slash_required app ''GET'' (path_part p)"
    using q(1) by (intro no_slash_required) simp
  have "merge_slashes (path_part p) \<noteq> []" using q(1) merge_eq_Nil by fastforce
  then have 4: "\<not> slash_required app ''GET'' (merge_slashes (path_part p))"
    by (rule no_slash_required)
  show ?thesis by (simp add: match_request_def req_GET 1 2 3 4)
qed


lemma match_static:
  assumes "path_part p = ''/static/'' @ f" and "f \<noteq> []" and "hd f \<noteq> CHR ''/''"
  shows "match_request app (GET p) =
        Matched \<lparr>rule_pattern = PathArg ''/static/'', rule_methods = [''GET'', ''HEAD'', ''OPTIONS''],
          rule_endpoint = Static\<rparr> f"
proof -
  have "pattern_match (PathArg ''/static/'') (''/static/'' @ f) = Some f"
    using assms(2,3) by (simp only: pattern_match.simps strip_prefix_append) simp
  then have "url_match app [] ''GET'' (path_part p) =
      Inr (\<lparr>rule_pattern = PathArg ''/static/'', rule_methods = [''GET'', ''HEAD'', ''OPTIONS''],
          rule_endpoint = Static\<rparr>, f)"
    unfolding assms(1) by (simp add: app_def route_def flask_init_def)
  then show ?thesis by (simp add: match_request_def req_GET)
qed

subsection \<open>The claims\<close>

text \<open>
  Claim C1. A call of \<^verbatim>\<open>GET /metrics\<close> in which both sampler calls return (readings
  \<open>c\<close> and \<open>m\<close>) is answered with status 200 and \<^verbatim>\<open>Content-Type: text/plain\<close>. Read
  line by line, its body is: for each of \<^verbatim>\<open>cpu_usage_percent\<close>,
  \<^verbatim>\<open>memory_usage_percent\<close>, \<^verbatim>\<open>app_up\<close>, in this order, a \<^verbatim>\<open># HELP\<close> line, a
  \<^verbatim>\<open># TYPE <name> gauge\<close> line and one sample line; so it declares exactly these three
  families. The text Python prints for a float holds no line feed, which is the
  hypothesis on \<open>float_str\<close>.
\<close>

theorem metrics_response_format:
  assumes "psutil_cpu_percent os 1 (boot t) = (Inr c, w1)"
      and "psutil_virtual_memory os w1 = (Inr m, w2)"
      and "nl \<notin> set (float_str os c)"
      and "nl \<notin> set (float_str os (percent m))"
  shows "wsgi_app os (GET ''/metrics'') (boot t) =
           (\<lparr>status = 200, headers = [(''Content-Type'', ''text/plain'')],
             body = Text (metrics_output os c m)\<rparr>, w2)
       \<and> exposition (metrics_output os c m) =
           [Help ''cpu_usage_percent'' ''Current CPU usage'',
            Type ''cpu_usage_percent'' ''gauge'',
            Sample ''cpu_usage_percent'' (float_str os c),
            Blank,
            Help ''memory_usage_percent'' ''Current memory usage'',
            Type ''memory_usage_percent'' ''gauge'',
            Sample ''memory_usage_percent'' (float_str os (percent m)),
            Blank,
            Help ''app_up'' ''Application is running'',
            Type ''app_up'' ''gauge'',
            Sample ''app_up'' ''1'',
            Blank]
       \<and> families (exposition (metrics_output os c m)) =
           [(''cpu_usage_percent'', ''gauge''), (''memory_usage_percent'', ''gauge''),
            (''app_up'', ''gauge'')]"
proof -
  have e: "exposition (metrics_output os c m) =
           [Help ''cpu_usage_percent'' ''Current CPU usage'',
            Type ''cpu_usage_percent'' ''gauge'',
            Sample ''cpu_usage_percent'' (float_str os c),
            Blank,
            Help ''memory_usage_percent'' ''Current memory usage'',
            Type ''memory_usage_percent'' ''gauge'',
            Sample ''memory_usage_percent'' (float_str os (percent m)),
            Blank,
            Help ''app_up'' ''Application is running'',
            Type ''app_up'' ''gauge'',
            Sample ''app_up'' ''1'',
            Blank]"
    using assms(3,4) by (rule exposition_metrics_output)
  have f: "families (exposition (metrics_output os c m)) =
           [(''cpu_usage_percent'', ''gauge''), (''memory_usage_percent'', ''gauge''),
            (''app_up'', ''gauge'')]"
    unfolding e by simp
  from wsgi_metrics_ok[OF assms(1,2)] e f show ?thesis by blast
qed

theorem metrics_response_format_witness:
  "psutil_cpu_percent env0 1 (boot 0) = (Inr (25 / 2), boot 1)
   \<and> psutil_virtual_memory env0 (boot 1) = (Inr \<lparr>percent = 40\<rparr>, boot 1)
   \<and> nl \<notin> set (float_str env0 (25 / 2))
   \<and> nl \<notin> set (float_str env0 (percent \<lparr>percent = 40\<rparr>))
   \<and> wsgi_app env0 (GET ''/metrics'') (boot 0) =
           (\<lparr>status = 200, headers = [(''Content-Type'', ''text/plain'')],
             body = Text (metrics_output env0 (25 / 2) \<lparr>percent = 40\<rparr>)\<rparr>, boot 1)
   \<and> exposition (metrics_output env0 (25 / 2) \<lparr>percent = 40\<rparr>) =
           [Help ''cpu_usage_percent'' ''Current CPU usage'',
            Type ''cpu_usage_percent'' ''gauge'',
            Sample ''cpu_usage_percent'' ''12.5'',
            Blank,
            Help ''memory_usage_percent'' ''Current memory usage'',
            Type ''memory_usage_percent'' ''gauge'',
            Sample ''memory_usage_percent'' ''40.0'',
            Blank,
            Help ''app_up'' ''Application is running'',
            Type ''app_up'' ''gauge'',
            Sample ''app_up'' ''1'',
            Blank]
   \<and> families (exposition (metrics_output env0 (25 / 2) \<lparr>percent = 40\<rparr>)) =
           [(''cpu_usage_percent'', ''gauge''), (''memory_usage_percent'', ''gauge''),
            (''app_up'', ''gauge'')]"
proof -
  have s: "float_str env0 (25 / 2) = ''12.5''" "float_str env0 (percent \<lparr>percent = 40\<rparr>) = ''40.0''"
    by (simp_all add: env0_def)
  show ?thesis
    using metrics_response_format[OF env0_cpu env0_mem env0_str env0_str] env0_cpu env0_mem
      env0_str[of "25 / 2"] env0_str[of "percent \<lparr>percent = 40\<rparr>"]
    unfolding s by blast
qed

text \<open>
  Claim C2. Every call of \<^verbatim>\<open>GET /health\<close> is answered with status 200 and a JSON
  object of exactly two fields: \<^verbatim>\<open>status\<close>, the string \<^verbatim>\<open>healthy\<close>, and
  \<^verbatim>\<open>timestamp\<close>, the wall clock (seconds since the epoch, a fractional number) as it
  stands when the view runs. The state is left as it was.
\<close>

theorem health_response:
  "wsgi_app os (GET ''/health'') (boot t) =
     (\<lparr>status = 200, headers = [(''Content-Type'', ''application/json'')],
       body = JsonDoc (JObj [(''status'', JStr ''healthy''), (''timestamp'', JNum (clock (boot t)))])\<rparr>,
      boot t)"
  by (simp add: wsgi_app_def dispatch_health view_functions_def health_def time_time_def
      jsonify_def finalize_def req_GET content_type_def)

text \<open>
  Claim C3. When a sampler call raises in \<^verbatim>\<open>GET /metrics\<close> (the CPU call, or the
  memory call after the CPU call returned), the view ends with that very exception,
  and the response is a 500 error page: no 200 and no metrics text.
\<close>

theorem sampler_failure_is_500:
  assumes "psutil_cpu_percent os 1 (boot t) = (Inl e, w1)
         \<or> (psutil_cpu_percent os 1 (boot t) = (Inr c, w1)
            \<and> psutil_virtual_memory os w1 = (Inl e, w2))"
  shows "fst (metrics os (boot t)) = Inl e
       \<and> status (fst (wsgi_app os (GET ''/metrics'') (boot t))) = 500
       \<and> body (fst (wsgi_app os (GET ''/metrics'') (boot t))) = ErrorPage"
proof -
  have m: "fst (metrics os (boot t)) = Inl e"
    using assms by (auto simp: metrics_def)
  obtain x w' where v: "metrics os (boot t) = (x, w')" by (cases "metrics os (boot t)")
  with m have "metrics os (boot t) = (Inl e, w')" by simp
  then have "wsgi_app os (GET ''/metrics'') (boot t) = (error_response 500, w')"
    by (simp add: wsgi_app_def dispatch_metrics view_functions_def)
  then show ?thesis using m by (simp add: error_response_def)
qed

theorem sampler_failure_is_500_witness:
  "(psutil_cpu_percent env_fail 1 (boot 0) = (Inl (PyExn ''PermissionError''), boot 1)
      \<or> (psutil_cpu_percent env_fail 1 (boot 0) = (Inr 0, boot 1)
          \<and> psutil_virtual_memory env_fail (boot 1) = (Inl (PyExn ''PermissionError''), boot 1)))
   \<and> fst (metrics env_fail (boot 0)) = Inl (PyExn ''PermissionError'')
   \<and> status (fst (wsgi_app env_fail (GET ''/metrics'') (boot 0))) = 500
   \<and> body (fst (wsgi_app env_fail (GET ''/metrics'') (boot 0))) = ErrorPage"
proof -
  have h: "psutil_cpu_percent env_fail 1 (boot 0) = (Inl (PyExn ''PermissionError''), boot 1)"
    by (simp add: psutil_cpu_percent_def sleep_boot env_fail_def)
  then have "psutil_cpu_percent env_fail 1 (boot 0) = (Inl (PyExn ''PermissionError''), boot 1)
      \<or> (psutil_cpu_percent env_fail 1 (boot 0) = (Inr 0, boot 1)
          \<and> psutil_virtual_memory env_fail (boot 1) = (Inl (PyExn ''PermissionError''), boot 1))"
    by (rule disjI1)
  from this sampler_failure_is_500[OF this] show ?thesis by (rule conjI)
qed

text \<open>
  Claim C4. A call of \<^verbatim>\<open>GET /metrics\<close> that is answered with 200 has passed the CPU
  sampling window of one second: the clock when it returns is at least one second
  after the clock when it arrived.
\<close>

theorem metrics_blocks_one_second:
  assumes "wsgi_app os (GET ''/metrics'') (boot t) = (r, w')"
      and "status r = 200"
  shows "clock w' - clock (boot t) \<ge> 1"
  using assms unfolding wsgi_metrics_cases
  by (auto split: sum.splits)

theorem metrics_blocks_one_second_witness:
  "wsgi_app env0 (GET ''/metrics'') (boot 0) =
     (\<lparr>status = 200, headers = [(''Content-Type'', ''text/plain'')],
       body = Text (metrics_output env0 (25 / 2) \<lparr>percent = 40\<rparr>)\<rparr>, boot 1)
   \<and> status \<lparr>status = 200, headers = [(''Content-Type'', ''text/plain'')],
       body = Text (metrics_output env0 (25 / 2) \<lparr>percent = 40\<rparr>)\<rparr> = 200
   \<and> clock (boot 1) - clock (boot 0) \<ge> 1"
proof -
  have h: "wsgi_app env0 (GET ''/metrics'') (boot 0) =
     (\<lparr>status = 200, headers = [(''Content-Type'', ''text/plain'')],
       body = Text (metrics_output env0 (25 / 2) \<lparr>percent = 40\<rparr>)\<rparr>, boot 1)"
    by (simp add: wsgi_metrics_cases env0_def)
  have s: "status \<lparr>status = 200, headers = [(''Content-Type'', ''text/plain'')],
       body = Text (metrics_output env0 (25 / 2) \<lparr>percent = 40\<rparr>)\<rparr> = 200" by simp
  from h s metrics_blocks_one_second[OF h s] show ?thesis by blast
qed




text \<open>
  Claim C6. Whatever requests are served one after another and whatever the sampler
  reads, every \<^verbatim>\<open>GET /metrics\<close> among them that is answered with 200 has exactly one
  \<^verbatim>\<open>app_up\<close> sample line, and its value is the literal \<^verbatim>\<open>1\<close>.
\<close>

theorem app_up_always_one:
  assumes "\<forall>x. nl \<notin> set (float_str os x)"
      and "serve os reqs (boot t) = (rs, w')"
      and "i < length reqs"
      and "snd (reqs ! i) = GET ''/metrics''"
      and "status (rs ! i) = 200"
  shows "\<exists>b. body (rs ! i) = Text b \<and> samples ''app_up'' (exposition b) = [''1'']"
proof -
  from serve_nth[OF assms(2) _ assms(3)] obtain t'
    where r: "rs ! i = fst (wsgi_app os (GET ''/metrics'') (boot t'))"
    using assms(4) by auto
  with assms(5) metrics_200_body[of os t'] obtain c m
    where b: "body (rs ! i) = Text (metrics_output os c m)" by auto
  have "samples ''app_up'' (exposition (metrics_output os c m)) = [''1'']"
    using assms(1) by (simp add: exposition_metrics_output)
  with b show ?thesis by blast
qed

theorem app_up_always_one_witness:
  "(\<forall>x. nl \<notin> set (float_str env0 x))
   \<and> serve env0 [(0, GET ''/metrics''), (5, GET ''/metrics'')] (boot 0) =
     ([\<lparr>status = 200, headers = [(''Content-Type'', ''text/plain'')],
        body = Text (metrics_output env0 (25 / 2) \<lparr>percent = 40\<rparr>)\<rparr>,
       \<lparr>status = 200, headers = [(''Content-Type'', ''text/plain'')],
        body = Text (metrics_output env0 (25 / 2) \<lparr>percent = 40\<rparr>)\<rparr>], boot 7)
   \<and> Suc 0 < length [(0::real, GET ''/metrics''), (5, GET ''/metrics'')]
   \<and> snd ([(0::real, GET ''/metrics''), (5, GET ''/metrics'')] ! Suc 0) = GET ''/metrics''
   \<and> samples ''app_up'' (exposition (metrics_output env0 (25 / 2) \<lparr>percent = 40\<rparr>)) = [''1'']"
proof -
  have h1: "\<forall>x. nl \<notin> set (float_str env0 x)" by (simp add: env0_str)
  have h3: "Suc 0 < length [(0::real, GET ''/metrics''), (5, GET ''/metrics'')]" by simp
  have h4: "snd ([(0::real, GET ''/metrics''), (5, GET ''/metrics'')] ! Suc 0) = GET ''/metrics''"
    by simp
  have h5: "status ([\<lparr>status = 200, headers = [(''Content-Type'', ''text/plain'')],
        body = Text (metrics_output env0 (25 / 2) \<lparr>percent = 40\<rparr>)\<rparr>,
       \<lparr>status = 200, headers = [(''Content-Type'', ''text/plain'')],
        body = Text (metrics_output env0 (25 / 2) \<lparr>percent = 40\<rparr>)\<rparr>] ! Suc 0) = 200"
    by simp
  from app_up_always_one[OF h1 serve_two h3 h4 h5]
  have "samples ''app_up'' (exposition (metrics_output env0 (25 / 2) \<lparr>percent = 40\<rparr>)) = [''1'']"
    by simp
  with h1 serve_two h3 h4 show ?thesis by blast
qed

text \<open>
  Claim C7. Every call of \<^verbatim>\<open>GET /\<close> is answered with status 200 and the greeting as
  text body (sent under Flask's default type \<^verbatim>\<open>text/html\<close>); the greeting is not empty
  and contains \<^verbatim>\<open>Hello! I'm a simple monitored service!\<close>; the view never raises.
\<close>

theorem home_response:
  "wsgi_app os (GET ''/'') (boot t) =
     (\<lparr>status = 200, headers = [(''Content-Type'', ''text/html; charset=utf-8'')],
       body = Text greeting\<rparr>, boot t)
   \<and> greeting \<noteq> []
   \<and> sublist ''Hello! I'm a simple monitored service!'' greeting
   \<and> (\<exists>rv. fst (home w) = Inr rv)"
proof -
  have "prefix ''Hello! I'm a simple monitored service!'' greeting"
    by (simp add: greeting_def)
  then have "sublist ''Hello! I'm a simple monitored service!'' greeting"
    by (rule prefix_imp_sublist)
  moreover have "wsgi_app os (GET ''/'') (boot t) =
     (\<lparr>status = 200, headers = [(''Content-Type'', ''text/html; charset=utf-8'')],
       body = Text greeting\<rparr>, boot t)"
    by (simp add: wsgi_app_def dispatch_home view_functions_def home_def finalize_def req_GET
        content_type_def)
  moreover have "greeting \<noteq> []" by (simp add: greeting_def)
  moreover have "\<exists>rv. fst (home w) = Inr rv" by (simp add: home_def)
  ultimately show ?thesis by blast
qed

text \<open>
  Claim C8. No view writes to the program's state: \<^verbatim>\<open>health\<close> and \<^verbatim>\<open>home\<close> return
  the state they were given, \<^verbatim>\<open>metrics\<close> only lets time pass. So the rules of
  \<^verbatim>\<open>app\<close> are the same after any request and after any sequence of requests, and the
  response to a request handled at time \<open>t\<close> is the same after any history \<open>hist\<close> of
  earlier requests as without it.
\<close>

theorem handlers_leave_state:
  "snd (health w) = w
   \<and> snd (home w) = w
   \<and> url_map (snd (metrics os w)) = url_map w
   \<and> url_map (snd (wsgi_app os req w)) = url_map w
   \<and> url_map (snd (serve os hist w)) = url_map w
   \<and> fst (wsgi_app os req ((snd (serve os hist w))\<lparr>clock := t\<rparr>)) =
       fst (wsgi_app os req (w\<lparr>clock := t\<rparr>))"
proof -
  have "(snd (serve os hist w))\<lparr>clock := t\<rparr> = w\<lparr>clock := t\<rparr>"
    by (rule world.equality) (simp_all add: frame_serve)
  then have "fst (wsgi_app os req ((snd (serve os hist w))\<lparr>clock := t\<rparr>)) =
       fst (wsgi_app os req (w\<lparr>clock := t\<rparr>))"
    by (rule arg_cong)
  then show ?thesis
    by (simp only: frame_health frame_home frame_metrics frame_wsgi frame_serve simp_thms)
qed

text \<open>
  Claim C9 says that every \<^verbatim>\<open>GET\<close> to a path other than \<^verbatim>\<open>/health\<close>, \<^verbatim>\<open>/\<close>,
  \<^verbatim>\<open>/metrics\<close> is answered with 404. Werkzeug strips the leading slashes of a path
  before it matches the rules, so \<^verbatim>\<open>GET //health\<close> runs \<^verbatim>\<open>health\<close> and is
  answered with 200.
\<close>

theorem repeated_leading_slash_not_404:
  "''//health'' \<notin> {''/health'', ''/'', ''/metrics''}
   \<and> dispatch_action (GET ''//health'') (boot 0) = CallView Health
   \<and> status (fst (wsgi_app env0 (GET ''//health'') (boot 0))) = 200
   \<and> status (fst (wsgi_app env0 (GET ''//health'') (boot 0))) \<noteq> 404"
proof -
  have d: "dispatch_action (GET ''//health'') (boot 0) = CallView Health"
    by (simp add: route_defs)
  then show ?thesis
    by (simp add: wsgi_app_def view_functions_def health_def time_time_def jsonify_def
        finalize_def req_GET)
qed

text \<open>
  Claim C9, amended. A \<^verbatim>\<open>GET\<close> request with a non-empty path is answered with 404
  when the path, its leading slashes made one, is none of \<^verbatim>\<open>/health\<close>, \<^verbatim>\<open>/\<close>,
  \<^verbatim>\<open>/metrics\<close> and either does not begin with \<^verbatim>\<open>/static/\<close>, or is \<^verbatim>\<open>/static/\<close>
  followed by a name that does not begin with a slash and is no file of the static
  folder.
\<close>

theorem unknown_path_404:
  assumes "p \<noteq> []"
      and "path_part p \<notin> {''/health'', ''/'', ''/metrics''}"
      and "\<not> prefix ''/static/'' (path_part p)
         \<or> (\<exists>f. path_part p = ''/static/'' @ f \<and> f \<noteq> [] \<and> hd f \<noteq> CHR ''/''
                \<and> static_file os f = None)"
  shows "status (fst (wsgi_app os (GET p) (boot t))) = 404"
proof -
  from assms(3) show ?thesis
  proof
    assume n: "\<not> prefix ''/static/'' (path_part p)"
    have "match_request app (GET p) = NotFound"
      using assms(1,2) n by (rule match_unknown)
    then show ?thesis
      by (simp add: wsgi_app_def dispatch_action_def error_response_def)
  next
    assume "\<exists>f. path_part p = ''/static/'' @ f \<and> f \<noteq> [] \<and> hd f \<noteq> CHR ''/''
                \<and> static_file os f = None"
    then obtain f where f: "path_part p = ''/static/'' @ f" "f \<noteq> []" "hd f \<noteq> CHR ''/''"
      and s: "static_file os f = None" by blast
    have "match_request app (GET p) =
        Matched \<lparr>rule_pattern = PathArg ''/static/'', rule_methods = [''GET'', ''HEAD'', ''OPTIONS''],
          rule_endpoint = Static\<rparr> f"
      using f by (rule match_static)
    then show ?thesis using s
      by (simp add: wsgi_app_def dispatch_action_def view_args_def view_functions_def
          send_static_file_def finalize_def req_GET error_response_def)
  qed
qed

theorem unknown_path_404_witness:
  "(''/does-not-exist'' \<noteq> []
    \<and> path_part ''/does-not-exist'' \<notin> {''/health'', ''/'', ''/metrics''}
    \<and> \<not> prefix ''/static/'' (path_part ''/does-not-exist'')
    \<and> status (fst (wsgi_app env0 (GET ''/does-not-exist'') (boot 0))) = 404)
   \<and> (''/static/logo.png'' \<noteq> []
    \<and> path_part ''/static/logo.png'' \<notin> {''/health'', ''/'', ''/metrics''}
    \<and> (path_part ''/static/logo.png'' = ''/static/'' @ ''logo.png'' \<and> ''logo.png'' \<noteq> []
        \<and> hd ''logo.png'' \<noteq> CHR ''/'' \<and> static_file env0 ''logo.png'' = None)
    \<and> status (fst (wsgi_app env0 (GET ''/static/logo.png'') (boot 0))) = 404)"
proof -
  have h1: "''/does-not-exist'' \<noteq> []" by simp
  have h2: "path_part ''/does-not-exist'' \<notin> {''/health'', ''/'', ''/metrics''}"
    by (simp add: path_part_def)
  have h3: "\<not> prefix ''/static/'' (path_part ''/does-not-exist'')"
    by (simp add: path_part_def)
  have g1: "''/static/logo.png'' \<noteq> []" by simp
  have g2: "path_part ''/static/logo.png'' \<notin> {''/health'', ''/'', ''/metrics''}"
    by (simp add: path_part_def)
  have g3: "path_part ''/static/logo.png'' = ''/static/'' @ ''logo.png'' \<and> ''logo.png'' \<noteq> []
      \<and> hd ''logo.png'' \<noteq> CHR ''/'' \<and> static_file env0 ''logo.png'' = None"
    by (simp add: path_part_def env0_def)
  have a: "''/does-not-exist'' \<noteq> []
    \<and> path_part ''/does-not-exist'' \<notin> {''/health'', ''/'', ''/metrics''}
    \<and> \<not> prefix ''/static/'' (path_part ''/does-not-exist'')
    \<and> status (fst (wsgi_app env0 (GET ''/does-not-exist'') (boot 0))) = 404"
    by (rule conjI[OF h1 conjI[OF h2 conjI[OF h3 unknown_path_404[OF h1 h2 disjI1[OF h3]]]]])
  have b: "''/static/logo.png'' \<noteq> []
    \<and> path_part ''/static/logo.png'' \<notin> {''/health'', ''/'', ''/metrics''}
    \<and> (path_part ''/static/logo.png'' = ''/static/'' @ ''logo.png'' \<and> ''logo.png'' \<noteq> []
        \<and> hd ''logo.png'' \<noteq> CHR ''/'' \<and> static_file env0 ''logo.png'' = None)
    \<and> status (fst (wsgi_app env0 (GET ''/static/logo.png'') (boot 0))) = 404"
  proof -
    from g3 have "\<exists>f. path_part ''/static/logo.png'' = ''/static/'' @ f \<and> f \<noteq> []
        \<and> hd f \<noteq> CHR ''/'' \<and> static_file env0 f = None"
      by (rule exI[where x = "''logo.png''"])
    then have g4: "\<not> prefix ''/static/'' (path_part ''/static/logo.png'')
        \<or> (\<exists>f. path_part ''/static/logo.png'' = ''/static/'' @ f \<and> f \<noteq> []
            \<and> hd f \<noteq> CHR ''/'' \<and> static_file env0 f = None)"
      by (rule disjI2)
    show ?thesis by (rule conjI[OF g1 conjI[OF g2 conjI[OF g3 unknown_path_404[OF g1 g2 g4]]]])
  qed
  show ?thesis by (rule conjI[OF a b])
qed

text \<open>
  Claim C10 says that a request to one of the three paths with any method other than
  \<^verbatim>\<open>GET\<close> is rejected with 405 and its view is not run. Not so for \<^verbatim>\<open>HEAD\<close>, which
  Flask adds to every rule that accepts \<^verbatim>\<open>GET\<close>: \<^verbatim>\<open>HEAD /health\<close> calls the view and is
  answered with 200.
\<close>

theorem head_request_not_rejected:
  "dispatch_action \<lparr>req_method = ''HEAD'', req_path = ''/health''\<rparr> (boot 0) = CallView Health
   \<and> status (fst (wsgi_app env0 \<lparr>req_method = ''HEAD'', req_path = ''/health''\<rparr> (boot 0))) = 200
   \<and> status (fst (wsgi_app env0 \<lparr>req_method = ''HEAD'', req_path = ''/health''\<rparr> (boot 0))) \<noteq> 405"
proof -
  have m: "request_method \<lparr>req_method = ''HEAD'', req_path = ''/health''\<rparr> = ''HEAD''"
    by (simp add: request_method_def to_upper_simps)
  have d: "dispatch_action \<lparr>req_method = ''HEAD'', req_path = ''/health''\<rparr> (boot 0) = CallView Health"
    by (simp add: boot_def app_def route_def flask_init_def dispatch_action_def match_request_def
        path_part_def m)
  then show ?thesis
    by (simp add: wsgi_app_def view_functions_def health_def time_time_def jsonify_def
        finalize_def m)
qed

text \<open>
  Claim C10, amended. A request to \<^verbatim>\<open>/health\<close>, \<^verbatim>\<open>/\<close> or \<^verbatim>\<open>/metrics\<close> whose method,
  in upper case, is other than \<^verbatim>\<open>GET\<close>, \<^verbatim>\<open>HEAD\<close> and \<^verbatim>\<open>OPTIONS\<close> is rejected with
  405; no view is called and the state is left as it was.
\<close>

theorem other_methods_405:
  assumes "request_method \<lparr>req_method = m, req_path = p\<rparr> \<notin> {''GET'', ''HEAD'', ''OPTIONS''}"
      and "p \<in> {''/health'', ''/'', ''/metrics''}"
  shows "dispatch_action \<lparr>req_method = m, req_path = p\<rparr> (boot t) = Abort 405
       \<and> wsgi_app os \<lparr>req_method = m, req_path = p\<rparr> (boot t) = (error_response 405, boot t)
       \<and> status (error_response 405) = 405"
proof -
  have "dispatch_action \<lparr>req_method = m, req_path = p\<rparr> (boot t) = Abort 405"
    using assms
    by (auto simp: boot_def app_def route_def flask_init_def dispatch_action_def match_request_def
        path_part_def slash_required_def)
  then show ?thesis by (simp add: wsgi_app_def error_response_def)
qed

theorem other_methods_405_witness:
  "request_method \<lparr>req_method = ''POST'', req_path = ''/metrics''\<rparr> \<notin> {''GET'', ''HEAD'', ''OPTIONS''}
   \<and> ''/metrics'' \<in> {''/health'', ''/'', ''/metrics''}
   \<and> dispatch_action \<lparr>req_method = ''POST'', req_path = ''/metrics''\<rparr> (boot 0) = Abort 405
   \<and> wsgi_app env0 \<lparr>req_method = ''POST'', req_path = ''/metrics''\<rparr> (boot 0) = (error_response 405, boot 0)
   \<and> status (error_response 405) = 405"
proof -
  have h1: "request_method \<lparr>req_method = ''POST'', req_path = ''/metrics''\<rparr> \<notin> {''GET'', ''HEAD'', ''OPTIONS''}"
    by (simp add: request_method_def to_upper_simps)
  have h2: "''/metrics'' \<in> {''/health'', ''/'', ''/metrics''}" by simp
  show ?thesis by (rule conjI[OF h1 conjI[OF h2 other_methods_405[OF h1 h2]]])
qed

end
